theory Spec2Isabelle
  imports Complex_Main
begin

section \<open>The elapsed-time tracker (class TimeDisplay of app.py)\<close>

text \<open>
  A \<open>TimeDisplay\<close> widget has three reactive attributes, \<open>start_time\<close>, \<open>time\<close> and
  \<open>total\<close>, and the interval timer \<open>update_timer\<close> that \<open>on_mount\<close> creates with
  \<open>pause=True\<close>. Of the timer only its paused flag matters: \<open>resume()\<close> clears it,
  \<open>pause()\<close> sets it, and the timer runs its callback \<open>update_time\<close> only while the flag
  is clear.

  Python's floats are read as the real numbers they denote. Every reading of the clock
  \<open>monotonic()\<close> is an explicit argument \<open>now\<close> of the operation that reads it.
  The attribute \<open>total\<close> is named \<open>total_acc\<close>, since \<open>total\<close> is a relation predicate
  of HOL.
\<close>

record TimeDisplay =
  start_time :: real
  time :: real
  total_acc :: real
  paused :: bool

text \<open>
  A new widget: \<open>start_time = reactive(monotonic)\<close> takes the clock's reading \<open>t0\<close> at
  creation as its default, \<open>time\<close> and \<open>total\<close> start at \<open>0.0\<close>, the timer is paused.
\<close>

definition new_TimeDisplay :: "real \<Rightarrow> TimeDisplay" where
  "new_TimeDisplay t0 = \<lparr>start_time = t0, time = 0, total_acc = 0, paused = True\<rparr>"

text \<open>\<open>self.time = self.total + (monotonic() - self.start_time)\<close>\<close>

definition update_time :: "real \<Rightarrow> TimeDisplay \<Rightarrow> TimeDisplay" where
  "update_time now s = s\<lparr>time := total_acc s + (now - start_time s)\<rparr>"

text \<open>\<open>self.start_time = monotonic(); self.update_timer.resume()\<close>\<close>

definition start :: "real \<Rightarrow> TimeDisplay \<Rightarrow> TimeDisplay" where
  "start now s = s\<lparr>start_time := now, paused := False\<rparr>"

text \<open>
  \<open>self.update_timer.pause(); self.total += monotonic() - self.start_time;
  self.time = self.total\<close>
\<close>

definition stop :: "real \<Rightarrow> TimeDisplay \<Rightarrow> TimeDisplay" where
  "stop now s =
     (let s1 = s\<lparr>paused := True\<rparr>;
          s2 = s1\<lparr>total_acc := total_acc s1 + (now - start_time s1)\<rparr>
      in s2\<lparr>time := total_acc s2\<rparr>)"

text \<open>\<open>self.total = 0; self.time = 0\<close>\<close>

definition reset :: "TimeDisplay \<Rightarrow> TimeDisplay" where
  "reset s = s\<lparr>total_acc := 0, time := 0\<rparr>"

text \<open>
  One firing of the interval timer at the instant \<open>now\<close>: the callback runs unless the
  timer is paused.
\<close>

definition tick :: "real \<Rightarrow> TimeDisplay \<Rightarrow> TimeDisplay" where
  "tick now s = (if paused s then s else update_time now s)"

text \<open>
  The elapsed time the widget shows once the display has been refreshed at the instant
  \<open>now\<close>: the attribute \<open>time\<close> after a firing of the timer.
\<close>

definition current_elapsed :: "real \<Rightarrow> TimeDisplay \<Rightarrow> real" where
  "current_elapsed now s = time (tick now s)"

text \<open>
  The commands a tracker receives: the three buttons that \<open>Stopwatch.on_button_pressed\<close>
  forwards to \<open>start()\<close>, \<open>stop()\<close> and \<open>reset()\<close> (\<open>reset()\<close> is also what
  \<open>action_reset_all_stopwatches\<close> calls), and a firing of the interval timer.
\<close>

datatype command = Start | Stop | Reset | Tick

fun step :: "real \<Rightarrow> command \<Rightarrow> TimeDisplay \<Rightarrow> TimeDisplay" where
  "step now Start s = start now s"
| "step now Stop s = stop now s"
| "step now Reset s = reset s"
| "step now Tick s = tick now s"

text \<open>
  \<open>reachable c s\<close>: the tracker can be in state \<open>s\<close> when the clock reads \<open>c\<close>. The
  clock is monotonic: each command reads it no earlier than the previous one did.
\<close>

inductive reachable :: "real \<Rightarrow> TimeDisplay \<Rightarrow> bool" where
  created: "reachable t0 (new_TimeDisplay t0)"
| after: "reachable c s \<Longrightarrow> c \<le> now \<Longrightarrow> reachable now (step now cmd s)"

section \<open>Rendering the elapsed time (TimeDisplay.watch_time)\<close>

text \<open>
  \<open>watch_time\<close> runs whenever the attribute \<open>time\<close> changes and passes the rendered
  string to \<open>self.update\<close>. The model is the function from the value of \<open>time\<close> to
  that string.

  \<open>divmod(x, 60)\<close> on a float: the floored quotient, as a float, and the remainder
  \<open>x - 60 * quotient\<close>. The divisor is the literal 60 at both calls, so the
  \<open>ZeroDivisionError\<close> of a zero divisor cannot occur. The model computes on the
  exact values; Python's result is the same wherever \<open>x\<close> is a float that is not
  negative and the quotient is below \<open>2 ^ 53\<close>, since the remainder of two floats is
  a float.
\<close>

definition divmod60 :: "real \<Rightarrow> real \<times> real" where
  "divmod60 x = (of_int \<lfloor>x / 60\<rfloor>, x - of_int \<lfloor>x / 60\<rfloor> * 60)"

text \<open>
  The presentation type \<open>f\<close> rounds the exact value of the float to the requested
  number of decimals, a tie going to the even neighbour.
\<close>

definition round_half_even :: "real \<Rightarrow> int" where
  "round_half_even y =
     (let f = \<lfloor>y\<rfloor>; d = y - of_int f
      in if d < 1 / 2 then f else if 1 / 2 < d then f + 1 else if even f then f else f + 1)"

definition digit_char :: "nat \<Rightarrow> char" where
  "digit_char d = ''0123456789'' ! d"

text \<open>The decimal digits of a natural number, most significant first.\<close>

fun digits10 :: "nat \<Rightarrow> string" where
  "digits10 n =
     (if n < 10 then [digit_char n] else digits10 (n div 10) @ [digit_char (n mod 10)])"

declare digits10.simps [simp del]

text \<open>The option \<open>,\<close>: a comma before every group of three digits, from the right.\<close>

fun group3 :: "string \<Rightarrow> string" where
  "group3 ds =
     (if length ds \<le> 3 then ds
      else group3 (take (length ds - 3) ds) @ CHR '','' # drop (length ds - 3) ds)"

declare group3.simps [simp del]

text \<open>Zeros on the left up to the width \<open>w\<close>.\<close>

definition zfill :: "nat \<Rightarrow> string \<Rightarrow> string" where
  "zfill w s = replicate (w - length s) CHR ''0'' @ s"

text \<open>
  A format specification \<open>0\<close>\<open>width\<close>[\<open>,\<close>]\<open>.\<close>\<open>prec\<close>\<open>f\<close> applied to a float: the
  magnitude rounded to \<open>prec\<close> decimals, the integer digits (grouped when the comma is
  given), a point and \<open>prec\<close> decimals unless \<open>prec\<close> is 0, and zeros between the sign
  and the digits up to the width. Python also groups the zeros it pads with; with the
  comma the source uses the width 2 only, where at most one zero is added and no comma
  can fall among the padding.
\<close>

definition format_f :: "nat \<Rightarrow> bool \<Rightarrow> nat \<Rightarrow> real \<Rightarrow> string" where
  "format_f width grouping prec x =
     (let n = nat (round_half_even (\<bar>x\<bar> * 10 ^ prec));
          ip = digits10 (n div 10 ^ prec);
          fp = (if prec = 0 then [] else CHR ''.'' # zfill prec (digits10 (n mod 10 ^ prec)));
          sign = (if x < 0 then ''-'' else [])
      in sign @ zfill (width - length sign) ((if grouping then group3 ip else ip) @ fp))"

text \<open>
  \<open>minutes, seconds = divmod(time, 60); hours, minutes = divmod(minutes, 60);
  self.update(f"{hours:02,.0f}:{minutes:02.0f}:{seconds:05.2f}")\<close>
\<close>

definition watch_time :: "real \<Rightarrow> string" where
  "watch_time t =
     (let (minutes, seconds) = divmod60 t;
          (hours, minutes) = divmod60 minutes
      in format_f 2 True 0 hours @ '':'' @ format_f 2 False 0 minutes @ '':'' @
         format_f 5 False 2 seconds)"

text \<open>
  The three fields as the specification words them, for an elapsed time that is not
  negative: the whole hours with thousands separators, padded to two digits; the whole
  minutes of the hour, padded to two digits; the seconds of the minute rounded to
  hundredths, two digits before the point and two after it.
\<close>

definition hours_field :: "real \<Rightarrow> string" where
  "hours_field t = zfill 2 (group3 (digits10 (nat (\<lfloor>t / 60\<rfloor> div 60))))"

definition minutes_field :: "real \<Rightarrow> string" where
  "minutes_field t = zfill 2 (digits10 (nat (\<lfloor>t / 60\<rfloor> mod 60)))"

definition seconds_field :: "real \<Rightarrow> string" where
  "seconds_field t =
     (let cs = nat (round_half_even ((t - of_int \<lfloor>t / 60\<rfloor> * 60) * 100))
      in zfill 2 (digits10 (cs div 100)) @ ''.'' @ zfill 2 (digits10 (cs mod 100)))"

section \<open>The stopwatches of the application (classes Stopwatch and StopwatchApp)\<close>

text \<open>
  A \<open>Stopwatch\<close> widget has the CSS class \<open>started\<close>, which \<open>on_button_pressed\<close> adds
  and removes, and the children that its method \<open>compose\<close> yields: three buttons and
  one \<open>TimeDisplay\<close>. The constructor \<open>Stopwatch()\<close> creates the widget without
  children. The UI framework runs \<open>compose\<close> later, once, when the mounted widget
  handles its own events; until then a query for the \<open>TimeDisplay\<close> finds nothing.
  So the \<open>TimeDisplay\<close> of a stopwatch is optional.
\<close>

record Stopwatch =
  started :: bool
  time_display :: "TimeDisplay option"

definition new_Stopwatch :: Stopwatch where
  "new_Stopwatch = \<lparr>started = False, time_display = None\<rparr>"

text \<open>
  \<open>Stopwatch.compose\<close>: \<open>yield TimeDisplay("00:00:00.00")\<close>, run by the framework when
  the clock reads \<open>t0\<close>.
\<close>

definition Stopwatch_compose :: "real \<Rightarrow> Stopwatch \<Rightarrow> Stopwatch" where
  "Stopwatch_compose t0 w = w\<lparr>time_display := Some (new_TimeDisplay t0)\<rparr>"

text \<open>
  \<open>query_one(TimeDisplay)\<close> on a stopwatch returns its \<open>TimeDisplay\<close> and raises
  \<open>NoMatches\<close> when there is none; \<open>DOMQuery.last()\<close> raises \<open>NoMatches\<close> on an
  empty result.
\<close>

datatype query_error = NoMatches

definition query_one :: "'a option \<Rightarrow> query_error + 'a" where
  "query_one c = (case c of None \<Rightarrow> Inl NoMatches | Some x \<Rightarrow> Inr x)"

definition query_last :: "'a list \<Rightarrow> query_error + 'a" where
  "query_last ws = (if ws = [] then Inl NoMatches else Inr (last ws))"

text \<open>
  \<open>time_display = self.query_one(TimeDisplay)\<close>, then
  \<open>match button_id: case "start": start()  case "stop": stop()  case "reset": reset()\<close>,
  with no look at the class \<open>started\<close>; any other id falls through.
\<close>

definition on_button_pressed :: "real \<Rightarrow> string \<Rightarrow> Stopwatch \<Rightarrow> query_error + Stopwatch" where
  "on_button_pressed now button_id w =
     (case query_one (time_display w) of
        Inl e \<Rightarrow> Inl e
      | Inr td \<Rightarrow>
          Inr (if button_id = ''start'' then
                 w\<lparr>time_display := Some (start now td), started := True\<rparr>
               else if button_id = ''stop'' then
                 w\<lparr>time_display := Some (stop now td), started := False\<rparr>
               else if button_id = ''reset'' then
                 w\<lparr>time_display := Some (reset td)\<rparr>
               else w))"

text \<open>
  The state of the application is the sequence of \<open>Stopwatch\<close> widgets mounted in the
  container \<open>#timers\<close>, in the order of the document, which is what
  \<open>self.query("Stopwatch")\<close> returns. \<open>StopwatchApp.compose\<close> creates the container
  with one stopwatch, and no action removes the container.
\<close>

definition StopwatchApp_compose :: "Stopwatch list" where
  "StopwatchApp_compose = [new_Stopwatch]"

text \<open>
  \<open>new_stopwatch = Stopwatch(); self.query_one("#timers").mount(new_stopwatch)\<close>: the new
  widget is the last child, and its children are not composed yet.
\<close>

definition action_add_stopwatch :: "Stopwatch list \<Rightarrow> Stopwatch list" where
  "action_add_stopwatch ws = ws @ [new_Stopwatch]"

text \<open>\<open>self.query("Stopwatch").remove()\<close>\<close>

definition action_remove_all_stopwatches :: "Stopwatch list \<Rightarrow> Stopwatch list" where
  "action_remove_all_stopwatches ws = []"

text \<open>
  \<open>timers = self.query("Stopwatch"); if timers: timers.last().remove()\<close>. The widget
  removed is the node \<open>last()\<close> returned, the last of the sequence.
\<close>

definition action_remove_stopwatch :: "Stopwatch list \<Rightarrow> query_error + Stopwatch list" where
  "action_remove_stopwatch ws =
     (if ws \<noteq> [] then
        (case query_last ws of Inl e \<Rightarrow> Inl e | Inr w \<Rightarrow> Inr (butlast ws))
      else Inr ws)"

text \<open>
  \<open>for timer in timers: time_display = timer.query_one(TimeDisplay);
  time_display.reset()\<close>. The loop has no guard: the first stopwatch without a
  \<open>TimeDisplay\<close> raises \<open>NoMatches\<close> out of the action, which ends the application.
\<close>

fun action_reset_all_stopwatches :: "Stopwatch list \<Rightarrow> query_error + Stopwatch list" where
  "action_reset_all_stopwatches [] = Inr []"
| "action_reset_all_stopwatches (timer # timers) =
     (case query_one (time_display timer) of
        Inl e \<Rightarrow> Inl e
      | Inr td \<Rightarrow>
          (case action_reset_all_stopwatches timers of
             Inl e \<Rightarrow> Inl e
           | Inr ws \<Rightarrow> Inr (timer\<lparr>time_display := Some (reset td)\<rparr> # ws)))"

section \<open>The buttons reach the tracker unguarded\<close>

lemma on_button_pressed_forwards:
  assumes "time_display w = Some td"
  shows "on_button_pressed now ''start'' w =
           Inr (w\<lparr>time_display := Some (start now td), started := True\<rparr>)"
    and "on_button_pressed now ''stop'' w =
           Inr (w\<lparr>time_display := Some (stop now td), started := False\<rparr>)"
    and "on_button_pressed now ''reset'' w = Inr (w\<lparr>time_display := Some (reset td)\<rparr>)"
  using assms by (simp_all add: on_button_pressed_def query_one_def)

section \<open>Stopping twice\<close>

lemma stop_fields:
  "start_time (stop now s) = start_time s"
  "total_acc (stop now s) = total_acc s + (now - start_time s)"
  "time (stop now s) = total_acc s + (now - start_time s)"
  "paused (stop now s) = True"
  by (simp_all add: stop_def Let_def)

text \<open>
  Claim C1 as stated fails: a tracker started at 0 and stopped at 3 has banked 3; a
  second \<open>stop()\<close> at 5 finds it paused and still adds \<open>5 - 0\<close>, so the total is 8.
\<close>

theorem C1_stop_twice_counterexample:
  "paused (stop 3 (start 0 (new_TimeDisplay 0))) \<and>
   total_acc (stop 3 (start 0 (new_TimeDisplay 0))) = 3 \<and>
   total_acc (stop 5 (stop 3 (start 0 (new_TimeDisplay 0)))) = 8 \<and>
   stop 5 (stop 3 (start 0 (new_TimeDisplay 0))) \<noteq> stop 3 (start 0 (new_TimeDisplay 0))"
  by (simp add: stop_def start_def new_TimeDisplay_def Let_def)

text \<open>
  Claim C1, amended: \<open>stop()\<close> has no guard. Whether or not the tracker is running it
  pauses the timer and adds \<open>now - start_time\<close> to the total, leaving \<open>start_time\<close> as
  it is. A second \<open>stop()\<close> at \<open>t2\<close> therefore adds \<open>t2 - start_time\<close> once more, and
  two calls equal one exactly when \<open>t2\<close> is the start instant.
\<close>

theorem C1_stop_twice:
  "stop t2 (stop t1 s) =
     (stop t1 s)\<lparr>total_acc := total_acc (stop t1 s) + (t2 - start_time s),
                 time := total_acc (stop t1 s) + (t2 - start_time s)\<rparr> \<and>
   (stop t2 (stop t1 s) = stop t1 s) = (t2 = start_time s)"
proof -
  have eq: "stop t2 (stop t1 s) =
     (stop t1 s)\<lparr>total_acc := total_acc (stop t1 s) + (t2 - start_time s),
                 time := total_acc (stop t1 s) + (t2 - start_time s)\<rparr>"
    by (simp add: stop_def Let_def)
  have "(stop t2 (stop t1 s) = stop t1 s) = (t2 = start_time s)"
  proof
    assume "stop t2 (stop t1 s) = stop t1 s"
    then have "total_acc (stop t2 (stop t1 s)) = total_acc (stop t1 s)" by simp
    then show "t2 = start_time s" by (simp add: stop_fields)
  next
    assume "t2 = start_time s"
    then show "stop t2 (stop t1 s) = stop t1 s" by (simp add: stop_def Let_def)
  qed
  with eq show ?thesis by simp
qed

section \<open>Starting a running tracker\<close>

lemma start_fields:
  "start_time (start now s) = now"
  "total_acc (start now s) = total_acc s"
  "time (start now s) = time s"
  "paused (start now s) = False"
  by (simp_all add: start_def)

lemma current_elapsed_running:
  "\<not> paused s \<Longrightarrow> current_elapsed now s = total_acc s + (now - start_time s)"
  by (simp add: current_elapsed_def tick_def update_time_def)

lemma current_elapsed_paused:
  "paused s \<Longrightarrow> current_elapsed now s = time s"
  by (simp add: current_elapsed_def tick_def)

text \<open>
  Claim C3 as stated fails: a tracker started at 0 shows 5 at the instant 5; a second
  \<open>start()\<close> at 5 moves \<open>start_time\<close> to 5, and the tracker shows 0 at that instant.
\<close>

theorem C3_start_running_counterexample:
  "\<not> paused (start 0 (new_TimeDisplay 0)) \<and>
   start_time (start 0 (new_TimeDisplay 0)) = 0 \<and>
   start_time (start 5 (start 0 (new_TimeDisplay 0))) = 5 \<and>
   current_elapsed 5 (start 0 (new_TimeDisplay 0)) = 5 \<and>
   current_elapsed 5 (start 5 (start 0 (new_TimeDisplay 0))) = 0"
  by (simp add: current_elapsed_def tick_def update_time_def start_def new_TimeDisplay_def)

text \<open>
  Claim C3, amended: \<open>start()\<close> has no guard. On a running tracker it keeps the total
  and the timer running but moves \<open>start_time\<close> to the current instant, so the elapsed
  value at any instant \<open>t\<close> drops by \<open>now - start_time\<close>, the part of the current
  segment that had run; the call changes nothing exactly when \<open>now\<close> is the start
  instant.
\<close>

theorem C3_start_running:
  assumes "\<not> paused s"
  shows "total_acc (start now s) = total_acc s \<and>
         \<not> paused (start now s) \<and>
         start_time (start now s) = now \<and>
         current_elapsed t (start now s) = current_elapsed t s - (now - start_time s) \<and>
         (start now s = s) = (now = start_time s)"
proof -
  have run: "\<not> paused (start now s)" by (simp add: start_fields)
  have el: "current_elapsed t (start now s) = current_elapsed t s - (now - start_time s)"
    using assms run by (simp add: current_elapsed_running start_fields)
  have same: "(start now s = s) = (now = start_time s)"
  proof
    assume "start now s = s"
    then have "start_time (start now s) = start_time s" by simp
    then show "now = start_time s" by (simp add: start_fields)
  next
    assume "now = start_time s"
    with assms show "start now s = s" by (simp add: start_def)
  qed
  from run el same show ?thesis by (simp add: start_fields)
qed

theorem C3_start_running_witness:
  "\<not> paused (start 0 (new_TimeDisplay 0)) \<and>
   total_acc (start 5 (start 0 (new_TimeDisplay 0))) = 0 \<and>
   start_time (start 5 (start 0 (new_TimeDisplay 0))) = 5 \<and>
   current_elapsed 7 (start 5 (start 0 (new_TimeDisplay 0))) =
     current_elapsed 7 (start 0 (new_TimeDisplay 0)) - (5 - 0)"
proof -
  have h: "\<not> paused (start 0 (new_TimeDisplay 0))" by (simp add: start_fields)
  show ?thesis
    using h C3_start_running [OF h, of 5 7]
    by (simp add: start_fields new_TimeDisplay_def)
qed

section \<open>Stop and start at one instant\<close>

text \<open>
  Claim C6: on a running tracker, \<open>stop()\<close> followed by \<open>start()\<close> with the clock at the
  same reading \<open>now\<close> leaves the elapsed value at \<open>now\<close> as it was: the segment is
  banked once, and the new segment starts with length zero.
\<close>

theorem C6_stop_start_same_instant:
  assumes "\<not> paused s"
  shows "current_elapsed now (start now (stop now s)) = current_elapsed now s"
proof -
  have "current_elapsed now (start now (stop now s)) =
        total_acc (stop now s) + (now - now)"
    by (simp add: current_elapsed_running start_fields)
  also have "\<dots> = total_acc s + (now - start_time s)"
    by (simp add: stop_fields)
  also have "\<dots> = current_elapsed now s"
    using assms by (simp add: current_elapsed_running)
  finally show ?thesis .
qed

theorem C6_stop_start_same_instant_witness:
  "\<not> paused (start 0 (new_TimeDisplay 0)) \<and>
   current_elapsed 4 (start 4 (stop 4 (start 0 (new_TimeDisplay 0)))) = 4 \<and>
   current_elapsed 4 (start 0 (new_TimeDisplay 0)) = 4"
proof -
  have h: "\<not> paused (start 0 (new_TimeDisplay 0))" by (simp add: start_fields)
  have e: "current_elapsed 4 (start 0 (new_TimeDisplay 0)) = 4"
    using h by (simp add: current_elapsed_running start_fields new_TimeDisplay_def)
  show ?thesis
    using h e C6_stop_start_same_instant [OF h, of 4] by simp
qed

section \<open>Two segments\<close>

text \<open>
  Claim C9: a tracker created at any instant \<open>t0\<close>, started at 0, stopped at 3 and
  started again at 10 has banked 3 and shows 5 at the instant 12: the 3 of the first
  segment and the 2 of the second, with nothing for the interval from 3 to 10.
\<close>

theorem C9_two_segments:
  "total_acc (stop 3 (start 0 (new_TimeDisplay t0))) = 3 \<and>
   current_elapsed 10 (stop 3 (start 0 (new_TimeDisplay t0))) = 3 \<and>
   current_elapsed 12 (start 10 (stop 3 (start 0 (new_TimeDisplay t0)))) = 5"
  by (simp add: current_elapsed_def tick_def update_time_def stop_def start_def
      new_TimeDisplay_def Let_def)

section \<open>Reset\<close>

lemma reset_fields:
  "start_time (reset s) = start_time s"
  "total_acc (reset s) = 0"
  "time (reset s) = 0"
  "paused (reset s) = paused s"
  by (simp_all add: reset_def)

lemma current_elapsed_reset:
  "current_elapsed now (reset s) = (if paused s then 0 else now - start_time s)"
  by (simp add: current_elapsed_def tick_def update_time_def reset_def)

text \<open>
  Claim C2 at a failing input: a tracker started at 0, stopped at 3 and started again
  at 10 is reset at 12 while it runs. \<open>reset()\<close> zeroes the total and the attribute
  \<open>time\<close> and keeps the tracker running, but \<open>start_time\<close> stays 10: the elapsed value
  is 2 at the instant of the reset and 5 at the instant 15, where counting from zero
  would give 0 and 3.
\<close>

theorem C2_reset_running_evaluated:
  "\<not> paused (reset (start 10 (stop 3 (start 0 (new_TimeDisplay 0))))) \<and>
   total_acc (reset (start 10 (stop 3 (start 0 (new_TimeDisplay 0))))) = 0 \<and>
   start_time (reset (start 10 (stop 3 (start 0 (new_TimeDisplay 0))))) = 10 \<and>
   current_elapsed 12 (reset (start 10 (stop 3 (start 0 (new_TimeDisplay 0))))) = 2 \<and>
   current_elapsed 15 (reset (start 10 (stop 3 (start 0 (new_TimeDisplay 0))))) = 5"
  by (simp add: current_elapsed_def tick_def update_time_def reset_def stop_def start_def
      new_TimeDisplay_def Let_def)

text \<open>
  Claim C4 at a failing input: a tracker started at 0 is reset at 7 while it runs. The
  attribute \<open>time\<close> is 0 right after \<open>reset()\<close>, but a firing of the timer at the same
  instant 7 computes \<open>0 + (7 - 0)\<close>: the elapsed value at the instant of the reset is
  7. On a stopped tracker the elapsed value after \<open>reset()\<close> is 0.
\<close>

theorem C4_reset_elapsed_evaluated:
  "\<not> paused (start 0 (new_TimeDisplay 0)) \<and>
   time (reset (start 0 (new_TimeDisplay 0))) = 0 \<and>
   current_elapsed 7 (reset (start 0 (new_TimeDisplay 0))) = 7 \<and>
   current_elapsed 7 (reset (stop 3 (start 0 (new_TimeDisplay 0)))) = 0"
  by (simp add: current_elapsed_def tick_def update_time_def reset_def stop_def start_def
      new_TimeDisplay_def Let_def)

section \<open>Invariants of the reachable states\<close>

lemma reachable_invariant:
  assumes "reachable c s"
  shows "start_time s \<le> c \<and> 0 \<le> total_acc s \<and> 0 \<le> time s \<and>
         (paused s \<longrightarrow> time s = total_acc s)"
  using assms
proof (induction rule: reachable.induct)
  case (created t0)
  show ?case by (simp add: new_TimeDisplay_def)
next
  case (after c s now cmd)
  then have le: "start_time s \<le> now" by simp
  show ?case
  proof (cases cmd)
    case Start
    with after show ?thesis by (simp add: start_fields)
  next
    case Stop
    with after le show ?thesis by (simp add: stop_fields)
  next
    case Reset
    with after le show ?thesis by (simp add: reset_fields)
  next
    case Tick
    with after le show ?thesis by (simp add: tick_def update_time_def)
  qed
qed

lemma elapsed_formula:
  assumes "reachable c s"
  shows "current_elapsed now s =
         (if paused s then total_acc s else total_acc s + (now - start_time s))"
  using reachable_invariant [OF assms]
  by (simp add: current_elapsed_running current_elapsed_paused)

text \<open>
  Claim C5 as stated fails in its last part: the running tracker started at 0 is
  reachable and shows 5 at the instant 5; \<open>start()\<close> at 5, which is no \<open>reset()\<close>,
  leads to a reachable state that shows 0 at the same instant.
\<close>

theorem C5_invariants_counterexample:
  "reachable 0 (start 0 (new_TimeDisplay 0)) \<and>
   reachable 5 (step 5 Start (start 0 (new_TimeDisplay 0))) \<and>
   current_elapsed 5 (start 0 (new_TimeDisplay 0)) = 5 \<and>
   current_elapsed 5 (step 5 Start (start 0 (new_TimeDisplay 0))) = 0"
proof -
  have r0: "reachable 0 (new_TimeDisplay 0)" by (rule reachable.created)
  have "reachable 0 (step 0 Start (new_TimeDisplay 0))"
    by (rule reachable.after [OF r0]) simp
  then have r1: "reachable 0 (start 0 (new_TimeDisplay 0))" by simp
  have r2: "reachable 5 (step 5 Start (start 0 (new_TimeDisplay 0)))"
    by (rule reachable.after [OF r1]) simp
  have e1: "current_elapsed 5 (start 0 (new_TimeDisplay 0)) = 5"
    by (simp add: current_elapsed_running start_fields new_TimeDisplay_def)
  have e2: "current_elapsed 5 (step 5 Start (start 0 (new_TimeDisplay 0))) = 0"
    by (simp add: current_elapsed_running start_fields new_TimeDisplay_def)
  from r1 r2 e1 e2 show ?thesis by simp
qed

text \<open>
  Claim C5, amended: in every state reachable under a monotonic clock, the elapsed
  value is \<open>total + (now - start_time)\<close> while the tracker runs and \<open>total\<close> while it
  is stopped, and \<open>total\<close> is not negative. From an instant \<open>now\<close> to a later instant
  \<open>t\<close> the elapsed value does not decrease by the mere passage of time, by a firing
  of the timer, by \<open>stop()\<close>, or by \<open>start()\<close> on a stopped tracker. (It can decrease
  by \<open>reset()\<close> and by \<open>start()\<close> on a running tracker.)
\<close>

theorem C5_invariants:
  assumes "reachable c s" and "c \<le> now" and "now \<le> t"
  shows "current_elapsed now s =
           (if paused s then total_acc s else total_acc s + (now - start_time s)) \<and>
         0 \<le> total_acc s \<and>
         current_elapsed now s \<le> current_elapsed t s \<and>
         current_elapsed now s \<le> current_elapsed t (step now Tick s) \<and>
         current_elapsed now s \<le> current_elapsed t (step now Stop s) \<and>
         (paused s \<longrightarrow> current_elapsed now s \<le> current_elapsed t (step now Start s))"
proof -
  note inv = reachable_invariant [OF assms(1)]
  from inv assms(2) have le: "start_time s \<le> now" by simp
  have f: "current_elapsed now s =
           (if paused s then total_acc s else total_acc s + (now - start_time s))"
    by (rule elapsed_formula [OF assms(1)])
  have time_passes: "current_elapsed now s \<le> current_elapsed t s"
    using assms(3) by (simp add: current_elapsed_def tick_def update_time_def)
  have after_tick: "current_elapsed now s \<le> current_elapsed t (step now Tick s)"
    using assms(3) by (simp add: current_elapsed_def tick_def update_time_def)
  have after_stop: "current_elapsed now s \<le> current_elapsed t (step now Stop s)"
  proof -
    have "current_elapsed t (step now Stop s) = total_acc s + (now - start_time s)"
      by (simp add: current_elapsed_paused stop_fields)
    with f le show ?thesis by simp
  qed
  have after_start: "current_elapsed now s \<le> current_elapsed t (step now Start s)"
    if "paused s"
  proof -
    have "current_elapsed t (step now Start s) = total_acc s + (t - now)"
      by (simp add: current_elapsed_running start_fields)
    with f that assms(3) show ?thesis by simp
  qed
  from f inv time_passes after_tick after_stop after_start show ?thesis by simp
qed

text \<open>
  Claim C5, the hypotheses met: the tracker started at 0 and stopped at 3, observed at
  4 and at 6.
\<close>

theorem C5_invariants_witness:
  "reachable 3 (stop 3 (start 0 (new_TimeDisplay 0))) \<and>
   paused (stop 3 (start 0 (new_TimeDisplay 0))) \<and>
   current_elapsed 4 (stop 3 (start 0 (new_TimeDisplay 0))) = 3 \<and>
   total_acc (stop 3 (start 0 (new_TimeDisplay 0))) = 3 \<and>
   current_elapsed 4 (stop 3 (start 0 (new_TimeDisplay 0)))
     \<le> current_elapsed 6 (step 4 Stop (stop 3 (start 0 (new_TimeDisplay 0)))) \<and>
   current_elapsed 4 (stop 3 (start 0 (new_TimeDisplay 0)))
     \<le> current_elapsed 6 (step 4 Start (stop 3 (start 0 (new_TimeDisplay 0))))"
proof -
  let ?s = "stop 3 (start 0 (new_TimeDisplay 0))"
  have r0: "reachable 0 (new_TimeDisplay 0)" by (rule reachable.created)
  have "reachable 0 (step 0 Start (new_TimeDisplay 0))"
    by (rule reachable.after [OF r0]) simp
  then have "reachable 3 (step 3 Stop (step 0 Start (new_TimeDisplay 0)))"
    by (rule reachable.after) simp
  then have r: "reachable 3 ?s" by simp
  have p: "paused ?s" by (simp add: stop_fields)
  have tot: "total_acc ?s = 3"
    by (simp add: stop_fields start_fields new_TimeDisplay_def)
  from C5_invariants [OF r, of 4 6] p tot show ?thesis using r by simp
qed

section \<open>The rendered string\<close>

lemma round_half_even_of_int: "round_half_even (of_int k) = k"
  by (simp add: round_half_even_def)

lemma round_half_even_lower: "\<lfloor>y\<rfloor> \<le> round_half_even y"
  by (simp add: round_half_even_def Let_def)

lemma round_half_even_upper: "round_half_even y \<le> \<lceil>y\<rceil>"
proof (cases "y - of_int \<lfloor>y\<rfloor> < 1 / 2")
  case True
  then have "round_half_even y = \<lfloor>y\<rfloor>" by (simp add: round_half_even_def Let_def)
  then show ?thesis by simp
next
  case False
  then have "of_int \<lfloor>y\<rfloor> < y" by linarith
  then have "\<lceil>y\<rceil> = \<lfloor>y\<rfloor> + 1" by (simp add: ceiling_altdef)
  moreover have "round_half_even y \<le> \<lfloor>y\<rfloor> + 1" by (simp add: round_half_even_def Let_def)
  ultimately show ?thesis by simp
qed

lemma length_digits10_pos: "1 \<le> length (digits10 n)"
  by (subst digits10.simps) simp

lemma length_digits10_lt100:
  assumes "n < 100"
  shows "length (digits10 n) \<le> 2"
proof (cases "n < 10")
  case True
  then show ?thesis by (subst digits10.simps) simp
next
  case False
  from assms have "n div 10 < 10" by simp
  then have "digits10 (n div 10) = [digit_char (n div 10)]" by (subst digits10.simps) simp
  with False show ?thesis by (subst digits10.simps) simp
qed

lemma length_zfill: "length (zfill w s) = max w (length s)"
  by (simp add: zfill_def)

lemma length_zfill2_lt100: "n < 100 \<Longrightarrow> length (zfill 2 (digits10 n)) = 2"
  using length_digits10_lt100 [of n] by (simp add: length_zfill)

lemma zfill_point:
  assumes "length b = 2"
  shows "zfill 5 (a @ CHR ''.'' # b) = zfill 2 a @ ''.'' @ b"
proof -
  have "5 - (length a + 3) = 2 - length a" by simp
  with assms show ?thesis by (simp add: zfill_def)
qed

lemma format_hours:
  assumes "0 \<le> h"
  shows "format_f 2 True 0 (of_int h) = zfill 2 (group3 (digits10 (nat h)))"
proof -
  have "\<not> (of_int h :: real) < 0" using assms by simp
  moreover have "\<bar>of_int h :: real\<bar> = of_int h" using assms by simp
  ultimately show ?thesis
    by (simp add: format_f_def Let_def round_half_even_of_int)
qed

lemma format_minutes:
  assumes "0 \<le> m"
  shows "format_f 2 False 0 (of_int m) = zfill 2 (digits10 (nat m))"
proof -
  have "\<not> (of_int m :: real) < 0" using assms by simp
  moreover have "\<bar>of_int m :: real\<bar> = of_int m" using assms by simp
  ultimately show ?thesis
    by (simp add: format_f_def Let_def round_half_even_of_int)
qed

lemma format_seconds:
  assumes "0 \<le> x"
  shows "format_f 5 False 2 x =
         zfill 2 (digits10 (nat (round_half_even (x * 100)) div 100)) @ ''.'' @
         zfill 2 (digits10 (nat (round_half_even (x * 100)) mod 100))"
proof -
  let ?n = "nat (round_half_even (x * 100))"
  have len: "length (zfill 2 (digits10 (?n mod 100))) = 2"
    by (rule length_zfill2_lt100) simp
  have "format_f 5 False 2 x =
        zfill 5 (digits10 (?n div 100) @ CHR ''.'' # zfill 2 (digits10 (?n mod 100)))"
    using assms by (simp add: format_f_def Let_def)
  also have "\<dots> = zfill 2 (digits10 (?n div 100)) @ ''.'' @ zfill 2 (digits10 (?n mod 100))"
    by (rule zfill_point [OF len])
  finally show ?thesis .
qed

lemma divmod60_twice:
  "divmod60 (fst (divmod60 t)) =
     (of_int (\<lfloor>t / 60\<rfloor> div 60), of_int (\<lfloor>t / 60\<rfloor> mod 60))"
proof -
  let ?q = "\<lfloor>t / 60\<rfloor>"
  have fl: "\<lfloor>(of_int ?q :: real) / 60\<rfloor> = ?q div 60"
    using floor_divide_of_int_eq [of ?q 60, where ?'a = real] by simp
  have "real_of_int (?q div 60 * 60 + ?q mod 60) = of_int ?q"
    by (simp only: div_mult_mod_eq)
  then have "of_int (?q div 60) * 60 + of_int (?q mod 60) = (of_int ?q :: real)"
    by (simp only: of_int_add of_int_mult of_int_numeral)
  then have "(of_int ?q :: real) - of_int (?q div 60) * 60 = of_int (?q mod 60)"
    by linarith
  with fl show ?thesis by (simp add: divmod60_def)
qed

lemma watch_time_fields:
  assumes "0 \<le> t"
  shows "watch_time t = hours_field t @ '':'' @ minutes_field t @ '':'' @ seconds_field t"
proof -
  let ?q = "\<lfloor>t / 60\<rfloor>"
  let ?s = "t - of_int ?q * 60"
  have q0: "0 \<le> ?q" using assms by simp
  then have h0: "0 \<le> ?q div 60" and m0: "0 \<le> ?q mod 60"
    by (simp_all add: pos_imp_zdiv_nonneg_iff)
  have "of_int ?q \<le> t / 60" by (rule of_int_floor_le)
  then have s0: "0 \<le> ?s" by simp
  have "watch_time t =
        format_f 2 True 0 (of_int (?q div 60)) @ '':'' @
        format_f 2 False 0 (of_int (?q mod 60)) @ '':'' @ format_f 5 False 2 ?s"
  proof -
    have a: "divmod60 t = (of_int ?q, ?s)" by (simp add: divmod60_def)
    have b: "divmod60 (of_int ?q) = (of_int (?q div 60), of_int (?q mod 60))"
      using divmod60_twice [of t] by (simp add: a)
    show ?thesis by (simp add: watch_time_def a b)
  qed
  then show ?thesis
    by (simp only: format_hours [OF h0] format_minutes [OF m0] format_seconds [OF s0]
        hours_field_def minutes_field_def seconds_field_def Let_def)
qed

lemma seconds_range:
  "0 \<le> t - of_int \<lfloor>t / 60\<rfloor> * 60" "t - of_int \<lfloor>t / 60\<rfloor> * 60 < (60::real)"
proof -
  have "of_int \<lfloor>t / 60\<rfloor> \<le> t / 60" by (rule of_int_floor_le)
  then show "0 \<le> t - of_int \<lfloor>t / 60\<rfloor> * 60" by linarith
  have "t / 60 < of_int \<lfloor>t / 60\<rfloor> + 1" by linarith
  then show "t - of_int \<lfloor>t / 60\<rfloor> * 60 < (60::real)" by linarith
qed

lemma length_hours_field: "2 \<le> length (hours_field t)"
  by (simp add: hours_field_def length_zfill)

lemma length_minutes_field: "length (minutes_field t) = 2"
proof -
  have "nat (\<lfloor>t / 60\<rfloor> mod 60) < 100"
    using pos_mod_bound [of 60 "\<lfloor>t / 60\<rfloor>"] by simp
  then show ?thesis by (simp add: minutes_field_def length_zfill2_lt100)
qed

lemma length_seconds_field: "length (seconds_field t) = 5"
proof -
  let ?y = "(t - of_int \<lfloor>t / 60\<rfloor> * 60) * 100"
  let ?cs = "nat (round_half_even ?y)"
  have "?y \<le> 6000" using seconds_range(2) [of t] by simp
  then have "\<lceil>?y\<rceil> \<le> 6000" by (simp add: ceiling_le_iff)
  then have "round_half_even ?y \<le> 6000"
    by (rule order_trans [OF round_half_even_upper])
  then have "?cs div 100 < 100" by simp
  then have "length (zfill 2 (digits10 (?cs div 100))) = 2" by (rule length_zfill2_lt100)
  moreover have "length (zfill 2 (digits10 (?cs mod 100))) = 2"
    by (rule length_zfill2_lt100) simp
  ultimately show ?thesis by (simp add: seconds_field_def Let_def)
qed


lemma watch_time_3725: "watch_time (7451 / 2) = ''01:02:05.50''"
  by code_simp

lemma watch_time_thousands: "watch_time 4445999 = ''1,234:59:59.00''"
proof -
  have q: "\<lfloor>(4445999::real) / 60\<rfloor> = 74099" by simp
  have h: "hours_field 4445999 = ''1,234''"
    by (simp add: hours_field_def q zfill_def digits10.simps group3.simps digit_char_def)
  have m: "minutes_field 4445999 = ''59''"
    by (simp add: minutes_field_def q zfill_def digits10.simps digit_char_def)
  have s: "seconds_field 4445999 = ''59.00''"
    by (simp add: seconds_field_def q round_half_even_def zfill_def
        digits10.simps digit_char_def)
  show ?thesis by (simp add: watch_time_fields h m s)
qed

lemma round_just_below_minute:
  assumes "59995 / 1000 \<le> t" "t < 60"
  shows "round_half_even (t * 100) = 6000"
proof -
  have fl: "\<lfloor>t * 100\<rfloor> = 5999"
    using assms by (simp add: floor_eq_iff)
  have d: "1 / 2 \<le> t * 100 - of_int \<lfloor>t * 100\<rfloor>"
    using assms by (simp add: fl)
  show ?thesis
  proof (cases "t * 100 - of_int \<lfloor>t * 100\<rfloor> = 1 / 2")
    case True
    then show ?thesis by (simp add: round_half_even_def Let_def fl)
  next
    case False
    with d have "1 / 2 < t * 100 - of_int \<lfloor>t * 100\<rfloor>" by linarith
    then show ?thesis by (simp add: round_half_even_def Let_def fl)
  qed
qed

lemma just_below_minute:
  assumes "59995 / 1000 \<le> t" "t < 60"
  shows "watch_time t = ''00:00:60.00''"
proof -
  have t0: "0 \<le> t" using assms by simp
  have q: "\<lfloor>t / 60\<rfloor> = 0" using assms by (simp add: floor_eq_iff)
  have h: "hours_field t = ''00''"
    by (simp add: hours_field_def q zfill_def digits10.simps group3.simps digit_char_def)
  have m: "minutes_field t = ''00''"
    by (simp add: minutes_field_def q zfill_def digits10.simps digit_char_def)
  have s: "seconds_field t = ''60.00''"
    by (simp add: seconds_field_def q round_just_below_minute [OF assms] zfill_def
        digits10.simps digit_char_def)
  show ?thesis by (simp add: watch_time_fields [OF t0] h m s)
qed



text \<open>
  Claim C7: an elapsed time \<open>t\<close> that is not negative is rendered as the hours field,
  a colon, the minutes field, a colon and the seconds field. The hours field has at
  least two characters, the minutes field exactly two, the seconds field exactly five
  (two digits, the point, two decimals). 3725.5 seconds are rendered as
  \<open>01:02:05.50\<close>, and 1234 hours, 59 minutes and 59 seconds with a thousands
  separator as \<open>1,234:59:59.00\<close>.
\<close>

theorem C7_watch_time_format:
  "(0 \<le> t \<longrightarrow>
      watch_time t = hours_field t @ '':'' @ minutes_field t @ '':'' @ seconds_field t) \<and>
   2 \<le> length (hours_field t) \<and>
   length (minutes_field t) = 2 \<and>
   length (seconds_field t) = 5 \<and>
   watch_time (7451 / 2) = ''01:02:05.50'' \<and>
   watch_time 4445999 = ''1,234:59:59.00''"
  using watch_time_fields [of t] length_hours_field [of t] length_minutes_field [of t]
    length_seconds_field [of t] watch_time_3725 watch_time_thousands
  by simp

text \<open>Claim C7, the hypothesis met: ten minutes and a quarter of a second.\<close>

theorem C7_watch_time_format_witness:
  "(0::real) \<le> 2401 / 4 \<and>
   watch_time (2401 / 4) = hours_field (2401 / 4) @ '':'' @ minutes_field (2401 / 4) @
     '':'' @ seconds_field (2401 / 4) \<and>
   hours_field (2401 / 4) = ''00'' \<and>
   minutes_field (2401 / 4) = ''10'' \<and>
   seconds_field (2401 / 4) = ''00.25''"
proof -
  have q: "\<lfloor>(2401 / 4 :: real) / 60\<rfloor> = 10" by simp
  have h: "hours_field (2401 / 4) = ''00''"
    by (simp add: hours_field_def q zfill_def digits10.simps group3.simps digit_char_def)
  have m: "minutes_field (2401 / 4) = ''10''"
    by (simp add: minutes_field_def q zfill_def digits10.simps digit_char_def)
  have s: "seconds_field (2401 / 4) = ''00.25''"
    by (simp add: seconds_field_def q round_half_even_def zfill_def
        digits10.simps digit_char_def)
  have "watch_time (2401 / 4) = hours_field (2401 / 4) @ '':'' @ minutes_field (2401 / 4) @
     '':'' @ seconds_field (2401 / 4)"
    using C7_watch_time_format [of "2401 / 4"] by simp
  with h m s show ?thesis by simp
qed

text \<open>
  Claim C10: every elapsed time from 59.995 seconds up to, but not including, one
  minute is rendered as \<open>00:00:60.00\<close>: the seconds are rounded to 60.00 after the
  minutes were taken as 0, so the seconds field is not below 60. The float nearest to
  59.999 lies in this range.
\<close>

theorem C10_seconds_field_sixty:
  assumes "59995 / 1000 \<le> t" and "t < 60"
  shows "watch_time t = ''00:00:60.00'' \<and> seconds_field t = ''60.00''"
proof -
  have q: "\<lfloor>t / 60\<rfloor> = 0" using assms by (simp add: floor_eq_iff)
  have "seconds_field t = ''60.00''"
    by (simp add: seconds_field_def q round_just_below_minute [OF assms] zfill_def
        digits10.simps digit_char_def)
  with just_below_minute [OF assms] show ?thesis by simp
qed

text \<open>Claim C10, the hypotheses met at 59.999 seconds.\<close>

theorem C10_seconds_field_sixty_witness:
  "(59995 / 1000 :: real) \<le> 59999 / 1000 \<and> (59999 / 1000 :: real) < 60 \<and>
   watch_time (59999 / 1000) = ''00:00:60.00'' \<and>
   seconds_field (59999 / 1000) = ''60.00''"
proof -
  have a: "(59995 / 1000 :: real) \<le> 59999 / 1000" by simp
  have b: "(59999 / 1000 :: real) < 60" by simp
  from a b C10_seconds_field_sixty [OF a b] show ?thesis by simp
qed

section \<open>Removing and resetting stopwatches\<close>

lemma query_last_snoc: "query_last (ws @ [w]) = Inr w"
  by (simp add: query_last_def)

lemma remove_snoc: "action_remove_stopwatch (ws @ [w]) = Inr ws"
  by (simp add: action_remove_stopwatch_def query_last_snoc)

lemma remove_empty: "action_remove_stopwatch [] = Inr []"
  by (simp add: action_remove_stopwatch_def)

lemma remove_after_add: "action_remove_stopwatch (action_add_stopwatch ws) = Inr ws"
  by (simp add: action_add_stopwatch_def remove_snoc)

lemma remove_after_remove_all:
  "action_remove_stopwatch (action_remove_all_stopwatches ws) = Inr []"
  by (simp add: action_remove_all_stopwatches_def remove_empty)

text \<open>
  Where every stopwatch has composed its \<open>TimeDisplay\<close>, resetting all of them
  succeeds and resets each one.
\<close>

lemma reset_all_composed:
  assumes "list_all (\<lambda>w. time_display w \<noteq> None) ws"
  shows "action_reset_all_stopwatches ws =
         Inr (map (\<lambda>w. w\<lparr>time_display := map_option reset (time_display w)\<rparr>) ws)"
  using assms
proof (induction ws)
  case Nil
  show ?case by simp
next
  case (Cons w ws)
  then obtain td where td: "time_display w = Some td" by auto
  from Cons have "action_reset_all_stopwatches ws =
      Inr (map (\<lambda>w. w\<lparr>time_display := map_option reset (time_display w)\<rparr>) ws)"
    by simp
  with td show ?case by (simp add: query_one_def)
qed

text \<open>A stopwatch that has not composed its \<open>TimeDisplay\<close> makes the action raise.\<close>

lemma reset_all_uncomposed:
  assumes "w \<in> set ws" and "time_display w = None"
  shows "action_reset_all_stopwatches ws = Inl NoMatches"
  using assms
proof (induction ws)
  case Nil
  then show ?case by simp
next
  case (Cons x xs)
  show ?case
  proof (cases "time_display x")
    case None
    then show ?thesis by (simp add: query_one_def)
  next
    case (Some td)
    with Cons have "w \<in> set xs" by auto
    with Cons have "action_reset_all_stopwatches xs = Inl NoMatches" by simp
    with Some show ?thesis by (simp add: query_one_def)
  qed
qed

text \<open>
  Claim C8 at a failing input: the application has one stopwatch whose children are
  composed; a stopwatch is added, and all stopwatches are reset before the framework
  has composed the new one. \<open>action_remove_stopwatch\<close> does what the claim says: on
  this sequence it removes the stopwatch just added, and on the empty sequence, also
  after all stopwatches were removed, it returns the empty sequence without an error.
  But \<open>action_reset_all_stopwatches\<close> ends with the error \<open>NoMatches\<close>, where the
  claim says that no operation on the collection fails.
\<close>

theorem C8_reset_all_after_add_evaluated:
  "action_remove_stopwatch (action_add_stopwatch [Stopwatch_compose 0 new_Stopwatch]) =
     Inr [Stopwatch_compose 0 new_Stopwatch] \<and>
   action_remove_stopwatch [] = Inr [] \<and>
   action_remove_stopwatch
     (action_remove_all_stopwatches
        (action_add_stopwatch [Stopwatch_compose 0 new_Stopwatch])) = Inr [] \<and>
   action_reset_all_stopwatches [Stopwatch_compose 0 new_Stopwatch] =
     Inr [(Stopwatch_compose 0 new_Stopwatch)\<lparr>time_display := Some (reset (new_TimeDisplay 0))\<rparr>] \<and>
   action_reset_all_stopwatches (action_add_stopwatch [Stopwatch_compose 0 new_Stopwatch]) =
     Inl NoMatches"
proof -
  let ?w = "Stopwatch_compose 0 new_Stopwatch"
  have composed: "action_reset_all_stopwatches [?w] =
      Inr [?w\<lparr>time_display := Some (reset (new_TimeDisplay 0))\<rparr>]"
    by (simp add: Stopwatch_compose_def query_one_def)
  have raised: "action_reset_all_stopwatches (action_add_stopwatch [?w]) = Inl NoMatches"
    by (simp add: action_add_stopwatch_def Stopwatch_compose_def new_Stopwatch_def
        query_one_def)
  from composed raised show ?thesis
    by (simp only: remove_after_add remove_empty remove_after_remove_all simp_thms)
qed

end
